theory Spec2Isabelle
  imports Complex_Main
begin

section \<open>Text primitives\<close>

text \<open>
  Task texts, keywords and names are Python \<open>str\<close> values.  They are modelled as
  \<open>string\<close>, every \<open>char\<close> read as the code point of the same number
  (U+0000 .. U+00FF), a range closed under \<open>str.lower\<close>.  The three character
  classes below are the ones Python uses on that range: \<open>str.isspace\<close> (also the
  \<open>\s\<close> of \<open>re\<close>), the \<open>\w\<close> of \<open>re\<close> (alphanumeric or underscore) and
  \<open>str.lower\<close>.  Scores and confidences are Python floats; they are modelled as
  exact reals.
\<close>

definition is_space :: "char \<Rightarrow> bool" where
  "is_space c =
     (let n = (of_char c :: nat)
      in (9 \<le> n \<and> n \<le> 13) \<or> (28 \<le> n \<and> n \<le> 32) \<or> n = 133 \<or> n = 160)"

definition is_word :: "char \<Rightarrow> bool" where
  "is_word c =
     (let n = (of_char c :: nat)
      in (48 \<le> n \<and> n \<le> 57) \<or> (65 \<le> n \<and> n \<le> 90) \<or> n = 95 \<or> (97 \<le> n \<and> n \<le> 122)
         \<or> n = 170 \<or> n = 178 \<or> n = 179 \<or> n = 181 \<or> n = 185 \<or> n = 186
         \<or> (188 \<le> n \<and> n \<le> 190) \<or> (192 \<le> n \<and> n \<le> 214)
         \<or> (216 \<le> n \<and> n \<le> 246) \<or> (248 \<le> n \<and> n \<le> 255))"

definition lower_char :: "char \<Rightarrow> char" where
  "lower_char c =
     (let n = (of_char c :: nat)
      in if (65 \<le> n \<and> n \<le> 90) \<or> (192 \<le> n \<and> n \<le> 214) \<or> (216 \<le> n \<and> n \<le> 222)
         then char_of (n + 32) else c)"

text \<open>\<open>str.lower()\<close>\<close>

definition lower :: "string \<Rightarrow> string" where
  "lower s = map lower_char s"

text \<open>\<open>str.strip()\<close>: leading and trailing whitespace removed.\<close>

definition strip :: "string \<Rightarrow> string" where
  "strip s = rev (dropWhile is_space (rev (dropWhile is_space s)))"

text \<open>\<open>str.isspace()\<close>: at least one character, all of them whitespace.\<close>

definition isspace :: "string \<Rightarrow> bool" where
  "isspace s = (s \<noteq> [] \<and> list_all is_space s)"

text \<open>\<open>str.split()\<close> without argument: the maximal runs of non-whitespace.\<close>

fun split_from :: "string \<Rightarrow> string \<Rightarrow> string list" where
  "split_from cur [] = (if cur = [] then [] else [cur])"
| "split_from cur (c # cs) =
     (if is_space c then (if cur = [] then split_from [] cs else cur # split_from [] cs)
      else split_from (cur @ [c]) cs)"

definition split_ws :: "string \<Rightarrow> string list" where
  "split_ws s = split_from [] s"

text \<open>\<open>s.startswith(sub)\<close>\<close>

fun starts_with :: "string \<Rightarrow> string \<Rightarrow> bool" where
  "starts_with s [] = True"
| "starts_with [] (c # cs) = False"
| "starts_with (x # xs) (c # cs) = (if x = c then starts_with xs cs else False)"

text \<open>Python's \<open>sub in s\<close> on strings: \<open>sub\<close> starts at some offset of \<open>s\<close>.\<close>

fun str_in :: "string \<Rightarrow> string \<Rightarrow> bool" where
  "str_in sub [] = (sub = [])"
| "str_in sub (c # cs) = (if starts_with (c # cs) sub then True else str_in sub cs)"

text \<open>
  The searches of \<open>re\<close> walk through the text from left to right; \<open>prev\<close> is the
  character before the current offset (\<open>None\<close> at the start of the text).  The
  \<open>\b\<close> of \<open>re\<close> holds between two neighbours when exactly one of them is a word
  character, the two ends of the text counting as non-word.
\<close>

definition head_opt :: "string \<Rightarrow> char option" where
  "head_opt s = (case s of [] \<Rightarrow> None | c # _ \<Rightarrow> Some c)"

definition is_word_opt :: "char option \<Rightarrow> bool" where
  "is_word_opt x = (case x of None \<Rightarrow> False | Some c \<Rightarrow> is_word c)"

definition word_boundary :: "char option \<Rightarrow> char option \<Rightarrow> bool" where
  "word_boundary l r = (is_word_opt l \<noteq> is_word_opt r)"

text \<open>The character before the end of a match of \<open>sub\<close> that starts after \<open>prev\<close>.\<close>

definition last_of :: "char option \<Rightarrow> string \<Rightarrow> char option" where
  "last_of prev sub = (if sub = [] then prev else Some (last sub))"

text \<open>The pattern \<open>\b sub \b\<close> (with \<open>sub\<close> escaped) matches at the head of \<open>s\<close>.\<close>

definition word_here :: "char option \<Rightarrow> string \<Rightarrow> string \<Rightarrow> bool" where
  "word_here prev sub s =
     (if starts_with s sub
      then word_boundary prev (head_opt s)
           \<and> word_boundary (last_of prev sub) (head_opt (drop (length sub) s))
      else False)"

fun search_word_from :: "char option \<Rightarrow> string \<Rightarrow> string \<Rightarrow> bool" where
  "search_word_from prev sub [] = word_here prev sub []"
| "search_word_from prev sub (c # cs) =
     (if word_here prev sub (c # cs) then True else search_word_from (Some c) sub cs)"

text \<open>\<open>re.search(r'\b' + re.escape(sub) + r'\b', s)\<close> finds a match.\<close>

definition search_word :: "string \<Rightarrow> string \<Rightarrow> bool" where
  "search_word sub s = search_word_from None sub s"

text \<open>\<open>re.search(r'\b(w1|...|wn)\b', s)\<close> finds a match.\<close>

definition search_words :: "string list \<Rightarrow> string \<Rightarrow> bool" where
  "search_words ws s = list_ex (\<lambda>w. search_word w s) ws"

text \<open>
  The pattern \<open>.*\b(b1|...)\b\<close> matches at the head of \<open>s\<close>: one of the words stands
  further right, with no newline before it (the \<open>.\<close> of \<open>re\<close> without \<open>DOTALL\<close>).
\<close>

fun words_on_line :: "char option \<Rightarrow> string list \<Rightarrow> string \<Rightarrow> bool" where
  "words_on_line prev ws [] = list_ex (\<lambda>b. word_here prev b []) ws"
| "words_on_line prev ws (c # cs) =
     (if list_ex (\<lambda>b. word_here prev b (c # cs)) ws then True
      else if c = CHR 0x0A then False
      else words_on_line (Some c) ws cs)"

text \<open>The pattern \<open>\b(a1|...)\b.*\b(b1|...)\b\<close> matches at the head of \<open>s\<close>.\<close>

definition words_then_words_here ::
  "char option \<Rightarrow> string list \<Rightarrow> string list \<Rightarrow> string \<Rightarrow> bool" where
  "words_then_words_here prev ws1 ws2 s =
     list_ex (\<lambda>a. if word_here prev a s
                   then words_on_line (last_of prev a) ws2 (drop (length a) s)
                   else False) ws1"

fun words_then_words_from ::
  "char option \<Rightarrow> string list \<Rightarrow> string list \<Rightarrow> string \<Rightarrow> bool" where
  "words_then_words_from prev ws1 ws2 [] = words_then_words_here prev ws1 ws2 []"
| "words_then_words_from prev ws1 ws2 (c # cs) =
     (if words_then_words_here prev ws1 ws2 (c # cs) then True
      else words_then_words_from (Some c) ws1 ws2 cs)"

text \<open>\<open>re.search(r'\b(a1|...)\b.*\b(b1|...)\b', s)\<close> finds a match.\<close>

definition search_words_then_words :: "string list \<Rightarrow> string list \<Rightarrow> string \<Rightarrow> bool" where
  "search_words_then_words ws1 ws2 s = words_then_words_from None ws1 ws2 s"

text \<open>
  The pattern \<open>\s+(b1|...)\<close> matches at the head of \<open>s\<close>: at least one whitespace
  character, then one of the alternatives.
\<close>

fun spaces_then :: "string list \<Rightarrow> string \<Rightarrow> bool" where
  "spaces_then bs [] = False"
| "spaces_then bs (c # cs) =
     (if is_space c
      then (if list_ex (starts_with cs) bs then True else spaces_then bs cs)
      else False)"

text \<open>\<open>re.search(r'pre\s+(b1|...)', s)\<close> finds a match.\<close>

fun search_then_space_then :: "string \<Rightarrow> string list \<Rightarrow> string \<Rightarrow> bool" where
  "search_then_space_then pre bs [] = False"
| "search_then_space_then pre bs (c # cs) =
     (if starts_with (c # cs) pre
      then (if spaces_then bs (drop (length pre) (c # cs)) then True
            else search_then_space_then pre bs cs)
      else search_then_space_then pre bs cs)"

section \<open>The catalog (config.py)\<close>

text \<open>
  An agent is a dictionary of the YAML catalog; the fields the router and the planner
  read are \<open>name\<close>, \<open>category\<close>, \<open>keywords\<close> (here \<open>agent_keywords\<close>) and \<open>is_default\<close>.  The catalog file
  itself is a parameter: \<open>config\<close> is the loaded dictionary, from category to the list
  of its agents, in file order.
\<close>

record agent =
  name :: string
  category :: string
  agent_keywords :: "string list"
  is_default :: bool

type_synonym config = "(string \<times> agent list) list"

datatype py_error = IndexError | AttributeError

text \<open>\<open>get_all_agents\<close>: every agent, tagged with the category it is listed under.\<close>

definition get_all_agents :: "config \<Rightarrow> agent list" where
  "get_all_agents cfg =
     concat (map (\<lambda>(cat, agents). map (\<lambda>a. a\<lparr>category := cat\<rparr>) agents) cfg)"

definition get_agents_by_category :: "config \<Rightarrow> string \<Rightarrow> agent list" where
  "get_agents_by_category cfg cat =
     (case map_of cfg cat of
        None \<Rightarrow> []
      | Some agents \<Rightarrow> map (\<lambda>a. a\<lparr>category := cat\<rparr>) agents)"

text \<open>
  \<open>get_default_agent\<close>: the first agent marked \<open>is_default\<close>, else the first agent of
  the category \<open>engineering\<close>; indexing an empty list there raises \<open>IndexError\<close>.
\<close>

definition get_default_agent :: "config \<Rightarrow> py_error + agent" where
  "get_default_agent cfg =
     (case find is_default (get_all_agents cfg) of
        Some a \<Rightarrow> Inr a
      | None \<Rightarrow>
          (case get_agents_by_category cfg ''engineering'' of
             [] \<Rightarrow> Inl IndexError
           | a # _ \<Rightarrow> Inr a))"

section \<open>The router (router.py)\<close>

text \<open>
  A task argument is any Python value; the router tells a \<open>str\<close> from everything
  else (\<open>None\<close>, a number, a list), which it replaces by the empty text.
\<close>

datatype task_arg = Text string | NonText

text \<open>\<open>if not task or not isinstance(task, str): task = ""\<close>\<close>

definition normalize_task :: "task_arg \<Rightarrow> string" where
  "normalize_task task = (case task of Text s \<Rightarrow> s | NonText \<Rightarrow> [])"

subsection \<open>Pattern detectors\<close>

text \<open>
  \<open>_detect_multi_agent_patterns\<close> runs seven blocks in order, each extending the list
  \<open>required_agents\<close>; every block is one function from the list before it to the list
  after it.
\<close>

definition impl_words :: "string list" where
  "impl_words = [''build'', ''implement'', ''create'', ''develop'']"

definition append_new :: "string \<Rightarrow> string list \<Rightarrow> string list" where
  "append_new n r = (if n \<notin> set r then r @ [n] else r)"

definition full_stack_pattern :: "string \<Rightarrow> string list \<Rightarrow> string list" where
  "full_stack_pattern task_lower r =
     (if str_in ''full-stack'' task_lower \<or> str_in ''fullstack'' task_lower
      then r @ [''Frontend Developer'', ''Backend Architect''] else r)"

definition design_impl_pattern :: "string \<Rightarrow> string list \<Rightarrow> string list" where
  "design_impl_pattern task_lower r =
     (if search_words_then_words [''design''] impl_words task_lower
         \<or> search_words_then_words impl_words [''design''] task_lower
      then r @ [''UI Designer'', ''Frontend Developer''] else r)"

definition frontend_backend_pattern :: "string \<Rightarrow> string list \<Rightarrow> string list" where
  "frontend_backend_pattern task_lower r =
     (if str_in ''frontend'' task_lower
         \<and> (str_in ''backend'' task_lower \<or> str_in ''api'' task_lower)
      then r @ [''Frontend Developer'', ''Backend Architect'']
      else if str_in ''backend'' task_lower \<and> str_in ''frontend'' task_lower
      then r @ [''Frontend Developer'', ''Backend Architect'']
      else r)"

definition build_test_pattern :: "string \<Rightarrow> string list \<Rightarrow> string list" where
  "build_test_pattern task_lower r =
     (if search_words [''build'', ''implement'', ''create''] task_lower
         \<and> search_words [''test'', ''qa'', ''quality''] task_lower
         \<and> \<not> search_then_space_then ''test''
               [''report'', ''documentation'', ''evidence''] task_lower
      then (let r' = r @ [''Reality Checker'']
            in if str_in ''api'' task_lower \<or> str_in ''backend'' task_lower
                  \<or> str_in ''endpoint'' task_lower
               then append_new ''Backend Architect'' r'
               else if str_in ''frontend'' task_lower \<or> str_in ''ui'' task_lower
                  \<or> str_in ''component'' task_lower
               then append_new ''Frontend Developer'' r'
               else r')
      else r)"

definition deploy_pattern :: "string \<Rightarrow> string list \<Rightarrow> string list" where
  "deploy_pattern task_lower r =
     (if str_in ''deploy'' task_lower \<or> str_in ''deployment'' task_lower
         \<or> str_in ''devops'' task_lower
      then r @ [''DevOps Engineer''] else r)"

definition design_pattern :: "string \<Rightarrow> string list \<Rightarrow> string list" where
  "design_pattern task_lower r =
     (if search_word ''design'' task_lower
      then (if \<not> search_then_space_then ''design''
                 [''architecture'', ''database'', ''api'', ''event-driven'', ''microservices'']
                 task_lower
            then append_new ''UI Designer'' r
            else r)
      else r)"

definition dashboard_pattern :: "string \<Rightarrow> string list \<Rightarrow> string list" where
  "dashboard_pattern task_lower r =
     (if str_in ''dashboard'' task_lower
      then append_new ''Frontend Developer'' (append_new ''UI Designer'' r)
      else r)"

text \<open>
  The source returns \<open>list(set(required_agents))\<close>, whose order Python leaves open; the
  callers only test membership and count the names, so the duplicates are removed in
  place.
\<close>

definition detect_multi_agent_patterns :: "string \<Rightarrow> string list" where
  "detect_multi_agent_patterns task_lower =
     remdups
       (dashboard_pattern task_lower
         (design_pattern task_lower
           (deploy_pattern task_lower
             (build_test_pattern task_lower
               (frontend_backend_pattern task_lower
                 (design_impl_pattern task_lower
                   (full_stack_pattern task_lower [])))))))"

subsection \<open>Scoring\<close>

text \<open>One round of the keyword loop of \<open>_calculate_agent_score\<close>.\<close>

definition keyword_step :: "string \<Rightarrow> string \<Rightarrow> real \<Rightarrow> real" where
  "keyword_step task_lower keyword acc =
     (let keyword_lower = lower keyword
      in if search_word keyword_lower task_lower
         then (let word_count = int (length (split_ws keyword_lower));
                   base_score = 2;
                   specificity_bonus = real_of_int (word_count - 1) * (5 / 10)
               in acc + (base_score + specificity_bonus))
         else if str_in keyword_lower task_lower then acc + 1
         else acc)"

text \<open>\<open>_calculate_agent_score\<close>\<close>

definition calculate_agent_score :: "string \<Rightarrow> agent \<Rightarrow> real" where
  "calculate_agent_score task_lower a =
     (let acc = fold (keyword_step task_lower) (agent_keywords a) 0
      in if str_in (lower (name a)) task_lower then acc + 5 else acc)"

record scored =
  sc_agent :: agent
  score :: real

record analysis =
  is_multi_agent :: bool
  required_agents :: "agent list"
  confidence_score :: real

text \<open>
  The body of the scoring loop of \<open>analyze_task\<close>: the keyword score, raised by 3 for
  an agent the pattern detectors name.
\<close>

definition agent_score :: "string \<Rightarrow> string list \<Rightarrow> agent \<Rightarrow> real" where
  "agent_score task_lower patterns a =
     (let s = calculate_agent_score task_lower a
      in if name a \<in> set patterns then s + 3 else s)"

text \<open>The scoring loop: the agents with a positive score, in catalog order.\<close>

fun score_agents :: "string \<Rightarrow> string list \<Rightarrow> agent list \<Rightarrow> scored list" where
  "score_agents task_lower patterns [] = []"
| "score_agents task_lower patterns (a # rest) =
     (let s = agent_score task_lower patterns a
      in if s > 0
         then \<lparr>sc_agent = a, score = s\<rparr> # score_agents task_lower patterns rest
         else score_agents task_lower patterns rest)"

text \<open>
  The scored agents after \<open>agent_scores.sort(key=..., reverse=True)\<close>: a stable sort
  by falling score, here the stable insertion sort on the negated score.
\<close>

definition ranked_scores :: "config \<Rightarrow> string \<Rightarrow> scored list" where
  "ranked_scores cfg task_lower =
     sort_key (\<lambda>x. - score x)
       (score_agents task_lower (detect_multi_agent_patterns task_lower) (get_all_agents cfg))"

text \<open>
  The second loop over the scored agents: an agent the detectors name, with a score of
  at least 2, joins \<open>similar_agents\<close> unless it is there already.
\<close>

definition add_pattern_agent :: "string list \<Rightarrow> scored \<Rightarrow> agent list \<Rightarrow> agent list" where
  "add_pattern_agent pattern_agent_names sa similar =
     (if name (sc_agent sa) \<in> set pattern_agent_names \<and> score sa \<ge> 2
      then (if sc_agent sa \<notin> set similar then similar @ [sc_agent sa] else similar)
      else similar)"

text \<open>
  \<open>similar_agents\<close>: the agents within 60% of the top score, then the pattern agents.
\<close>

definition similar_agents :: "string list \<Rightarrow> scored list \<Rightarrow> agent list" where
  "similar_agents pattern_agent_names agent_scores =
     (let top_score = score (hd agent_scores)
      in fold (add_pattern_agent pattern_agent_names) agent_scores
           (map sc_agent (filter (\<lambda>a. score a \<ge> top_score * (6 / 10)) agent_scores)))"

text \<open>
  \<open>analyze_task\<close>.  The default agent is looked up only on the fall-back branch, which
  is where the call can raise.
\<close>

definition analyze_task :: "config \<Rightarrow> task_arg \<Rightarrow> py_error + analysis" where
  "analyze_task cfg task =
     (let task_lower = lower (normalize_task task);
          patterns = detect_multi_agent_patterns task_lower;
          agent_scores = ranked_scores cfg task_lower
      in if agent_scores = [] \<or> score (hd agent_scores) < 2
         then (case get_default_agent cfg of
                 Inl e \<Rightarrow> Inl e
               | Inr d \<Rightarrow>
                   Inr \<lparr>is_multi_agent = False, required_agents = [d],
                        confidence_score =
                          (if agent_scores = [] then 0
                           else min (1 / 10 + score (hd agent_scores) * (5 / 100)) (3 / 10))\<rparr>)
         else if length agent_scores = 1
         then Inr \<lparr>is_multi_agent = False, required_agents = [sc_agent (hd agent_scores)],
                   confidence_score = min (3 / 10 + score (hd agent_scores) * (1 / 10)) 1\<rparr>
         else
           (let top_score = score (hd agent_scores);
                similar = similar_agents patterns agent_scores;
                multi =
                  (length similar > 1
                   \<and> (length (remdups (map category similar)) > 1
                      \<or> (length (remdups (map name similar)) > 1 \<and> top_score \<ge> 25 / 10)
                      \<or> length (remdups patterns) > 1))
            in Inr \<lparr>is_multi_agent = multi,
                    required_agents =
                      (if multi then take 5 similar else [sc_agent (hd agent_scores)]),
                    confidence_score = min (3 / 10 + top_score * (1 / 10)) 1\<rparr>))"

text \<open>\<open>select_agent\<close>\<close>

definition select_agent :: "config \<Rightarrow> task_arg \<Rightarrow> py_error + agent" where
  "select_agent cfg task =
     (let t = strip (normalize_task task)
      in if t = [] \<or> isspace t then get_default_agent cfg
         else (case analyze_task cfg (Text t) of
                 Inl e \<Rightarrow> Inl e
               | Inr an \<Rightarrow>
                   (case required_agents an of
                      a # _ \<Rightarrow> Inr a
                    | [] \<Rightarrow> get_default_agent cfg)))"

section \<open>The matcher's score, as the specification words it\<close>

text \<open>
  What one keyword contributes: \<open>2.0 + 0.5 * (wordCount - 1)\<close> for a whole-word match,
  else \<open>1.0\<close> for a substring match, else nothing.
\<close>

definition spec_keyword_points :: "string \<Rightarrow> string \<Rightarrow> real" where
  "spec_keyword_points task_lower keyword =
     (if search_word (lower keyword) task_lower
      then 2 + (5 / 10) * (real (length (split_ws (lower keyword))) - 1)
      else if str_in (lower keyword) task_lower then 1
      else 0)"

definition spec_agent_score :: "string \<Rightarrow> agent \<Rightarrow> real" where
  "spec_agent_score task_lower a =
     (\<Sum>k\<leftarrow>agent_keywords a. spec_keyword_points task_lower k)
     + (if str_in (lower (name a)) task_lower then 5 else 0)
     + (if name a \<in> set (detect_multi_agent_patterns task_lower) then 3 else 0)"

section \<open>The coordination planner (coordination.py)\<close>

text \<open>
  The dictionaries the planner builds, as records.  The \<open>estimated_time\<close> entry of a
  plan is computed from the finished sequence alone (the sum of the fixed durations)
  and cannot raise; no property below reads it, and the record leaves it out.
\<close>

record agent_detail =
  d_name :: string
  d_category :: string
  d_role :: string
  d_responsibilities :: "string list"

record step =
  step_number :: int
  step_agent :: string
  action :: string
  deliverable :: string
  duration :: string
  protocols :: "string list"

record handoff =
  from_agent :: string
  to_agent :: string
  h_deliverable :: string
  success_criteria :: "string list"

record plan =
  p_task :: task_arg
  p_agents :: "agent_detail list"
  p_sequence :: "step list"
  handoff_points :: "handoff list"
  dependencies :: "int \<rightharpoonup> int list"
  parallel_groups :: "string list list"

text \<open>\<open>_get_agent_responsibilities\<close>\<close>

definition get_agent_responsibilities :: "agent \<Rightarrow> task_arg \<Rightarrow> string list" where
  "get_agent_responsibilities a task =
     (if category a = ''design''
      then [''Create design mockups and wireframes'', ''Define user experience flows'',
            ''Establish design system and components'']
      else if category a = ''engineering''
      then (if str_in ''Frontend'' (name a)
            then [''Implement UI components'', ''Integrate with backend APIs'',
                  ''Ensure responsive design'']
            else if str_in ''Backend'' (name a)
            then [''Design and implement API endpoints'', ''Setup database schema'',
                  ''Handle business logic'']
            else [''Gather and document requirements'', ''Design technical architecture'',
                  ''Implement core functionality''])
      else if category a = ''testing''
      then [''Write comprehensive test cases'', ''Perform integration testing'',
            ''Validate against requirements'']
      else if category a = ''product''
      then [''Define product requirements'', ''Prioritize features'',
            ''Coordinate between teams'']
      else [''Complete assigned tasks'', ''Follow development protocols'',
            ''Deliver quality work''])"

text \<open>\<open>_get_implementation_action\<close> and \<open>_get_implementation_deliverable\<close>\<close>

definition get_implementation_action :: "agent \<Rightarrow> string" where
  "get_implementation_action a =
     (if str_in ''Frontend'' (name a) then ''Implement frontend components and user interface''
      else if str_in ''Backend'' (name a) then ''Implement backend APIs and business logic''
      else if str_in ''Mobile'' (name a) then ''Implement mobile application features''
      else if str_in ''AI'' (name a) then ''Implement AI models and integration''
      else if str_in ''DevOps'' (name a) then ''Setup deployment pipeline and infrastructure''
      else ''Implement core functionality and features'')"

definition get_implementation_deliverable :: "agent \<Rightarrow> string" where
  "get_implementation_deliverable a =
     (if str_in ''Frontend'' (name a) then ''Working frontend with all UI components''
      else if str_in ''Backend'' (name a) then ''Functional backend with tested API endpoints''
      else if str_in ''Mobile'' (name a) then ''Tested mobile application build''
      else if str_in ''AI'' (name a) then ''Trained models and integration code''
      else if str_in ''DevOps'' (name a) then ''Deployment pipeline and infrastructure code''
      else ''Implemented functionality with tests'')"

subsection \<open>The sequence of steps\<close>

text \<open>
  \<open>_generate_sequence\<close> keeps two variables, the list \<open>sequence\<close> and the counter
  \<open>step_number\<close>; every \<open>sequence.append({...}); step_number += 1\<close> is one
  \<open>add_step\<close> on that pair.
\<close>

type_synonym seq_state = "step list \<times> int"

definition add_step ::
  "seq_state \<Rightarrow> string \<Rightarrow> string \<Rightarrow> string \<Rightarrow> string \<Rightarrow> string list \<Rightarrow> seq_state" where
  "add_step st ag act del dur prots =
     (fst st @ [\<lparr>step_number = snd st, step_agent = ag, action = act, deliverable = del,
                 duration = dur, protocols = prots\<rparr>],
      snd st + 1)"

definition is_designer :: "agent \<Rightarrow> bool" where
  "is_designer a = (str_in ''Designer'' (name a) \<or> str_in ''UX'' (name a))"

definition is_tester :: "agent \<Rightarrow> bool" where
  "is_tester a = (str_in ''Tester'' (name a) \<or> str_in ''Checker'' (name a))"

definition is_devops :: "agent \<Rightarrow> bool" where
  "is_devops a = str_in ''DevOps'' (name a)"

definition requirements_phase :: "agent \<Rightarrow> seq_state \<Rightarrow> seq_state" where
  "requirements_phase primary_agent st =
     add_step st (name primary_agent) ''Gather and document requirements''
       ''Requirements document with clear specifications'' ''2 hours''
       [''Requirements gathering first'', ''Create TODO list'', ''Git branch setup'']"

definition design_phase :: "agent list \<Rightarrow> seq_state \<Rightarrow> seq_state" where
  "design_phase agents st =
     (if list_ex is_designer agents
      then (case find is_designer agents of
              Some designer \<Rightarrow>
                add_step st (name designer) ''Design system architecture and user interface''
                  ''Design mockups, wireframes, and component library'' ''4 hours''
                  [''Follow design system'', ''Create reusable components'',
                   ''Document decisions'']
            | None \<Rightarrow> st)
      else st)"

definition implementation_step :: "agent \<Rightarrow> seq_state \<Rightarrow> seq_state" where
  "implementation_step a st =
     (if \<not> str_in ''Designer'' (name a) \<and> \<not> str_in ''UX'' (name a)
         \<and> \<not> str_in ''Tester'' (name a) \<and> \<not> str_in ''Checker'' (name a)
      then add_step st (name a) (get_implementation_action a)
             (get_implementation_deliverable a) ''6 hours''
             [''Test-first development'', ''Git commits'', ''Virtual environment'',
              ''Follow TODO list'']
      else st)"

definition implementation_phase :: "agent list \<Rightarrow> seq_state \<Rightarrow> seq_state" where
  "implementation_phase agents st = fold implementation_step agents st"

definition testing_phase :: "agent list \<Rightarrow> agent \<Rightarrow> string \<Rightarrow> seq_state \<Rightarrow> seq_state" where
  "testing_phase agents primary_agent task st =
     (if list_ex (\<lambda>w. str_in w (lower task)) [''build'', ''implement'', ''create'', ''develop'']
      then (let tester = (case find is_tester agents of Some a \<Rightarrow> a | None \<Rightarrow> primary_agent)
            in add_step st (name tester) ''Test implementation and validate requirements''
                 ''Test results, bug reports, and validation report'' ''3 hours''
                 [''Comprehensive testing'', ''Test coverage'', ''QA checklist''])
      else st)"

definition deployment_phase :: "agent list \<Rightarrow> agent \<Rightarrow> string \<Rightarrow> seq_state \<Rightarrow> seq_state" where
  "deployment_phase agents primary_agent task st =
     (if list_ex (\<lambda>w. str_in w (lower task))
           [''deploy'', ''deployment'', ''production'', ''release'']
      then (let devops = (case find is_devops agents of Some a \<Rightarrow> a | None \<Rightarrow> primary_agent)
            in add_step st (name devops) ''Deploy to production and setup monitoring''
                 ''Deployed application with monitoring and CI/CD pipeline'' ''4 hours''
                 [''Infrastructure as code'', ''Automated deployment'', ''Monitoring setup''])
      else st)"

text \<open>
  \<open>_generate_sequence\<close>: \<open>agents[0]\<close> raises \<open>IndexError\<close> on an empty list, and
  \<open>task.lower()\<close> raises \<open>AttributeError\<close> on a task that is not a \<open>str\<close>.
\<close>

definition generate_sequence :: "agent list \<Rightarrow> task_arg \<Rightarrow> py_error + step list" where
  "generate_sequence agents task =
     (case agents of
        [] \<Rightarrow> Inl IndexError
      | primary_agent # _ \<Rightarrow>
          (case task of
             NonText \<Rightarrow> Inl AttributeError
           | Text t \<Rightarrow>
               Inr (fst (deployment_phase agents primary_agent t
                          (testing_phase agents primary_agent t
                            (implementation_phase agents
                              (design_phase agents
                                (requirements_phase primary_agent ([], 1)))))))))"

subsection \<open>Handoffs, dependencies, parallel groups\<close>

text \<open>\<open>_get_success_criteria\<close>\<close>

definition get_success_criteria :: "step \<Rightarrow> step \<Rightarrow> string list" where
  "get_success_criteria from_step to_step =
     (let c0 = [''All deliverables completed and documented'',
                ''Code committed to git repository''];
          c1 = (if str_in ''requirements'' (lower (action from_step))
                then c0 @ [''Requirements clearly defined and validated'',
                           ''Acceptance criteria documented'']
                else c0);
          c2 = (if str_in ''design'' (lower (action from_step))
                then c1 @ [''Design approved by stakeholders'', ''All components documented'']
                else c1);
          c3 = (if str_in ''implement'' (lower (action from_step))
                then c2 @ [''All tests passing'', ''Code review completed'']
                else c2)
      in c3)"

text \<open>The body of the loop of \<open>_generate_handoffs\<close>, at index \<open>i\<close>.\<close>

definition handoff_step :: "step list \<Rightarrow> nat \<Rightarrow> handoff list \<Rightarrow> handoff list" where
  "handoff_step sequence i handoffs =
     (let current_step = sequence ! i;
          next_step = sequence ! (i + 1)
      in if step_agent current_step \<noteq> step_agent next_step
         then handoffs @ [\<lparr>from_agent = step_agent current_step,
                           to_agent = step_agent next_step,
                           h_deliverable = deliverable current_step,
                           success_criteria = get_success_criteria current_step next_step\<rparr>]
         else handoffs)"

text \<open>
  \<open>_generate_handoffs\<close>: \<open>for i in range(len(sequence) - 1)\<close>; both indices stay inside
  the list, and an empty sequence gives an empty range.
\<close>

definition generate_handoffs :: "agent list \<Rightarrow> step list \<Rightarrow> handoff list" where
  "generate_handoffs agents sequence =
     fold (handoff_step sequence) [0 ..< length sequence - 1] []"

text \<open>\<open>_map_dependencies\<close>\<close>

definition map_dependencies :: "step list \<Rightarrow> (int \<rightharpoonup> int list)" where
  "map_dependencies sequence =
     fold (\<lambda>s deps. let step_num = step_number s
                     in if step_num > 1 then deps(step_num \<mapsto> [step_num - 1]) else deps)
          sequence Map.empty"

text \<open>\<open>_identify_parallel_work\<close>\<close>

definition identify_parallel_work :: "agent list \<Rightarrow> task_arg \<Rightarrow> string list list" where
  "identify_parallel_work agents task =
     (let has_frontend = list_ex (\<lambda>a. str_in ''Frontend'' (name a)) agents;
          has_backend = list_ex (\<lambda>a. str_in ''Backend'' (name a)) agents;
          g1 = (if has_frontend \<and> has_backend
                then [[''Frontend Developer'', ''Backend Architect'']] else []);
          g2 = (if length agents \<ge> 3
                then (let impl_agents =
                            map name (filter (\<lambda>a. \<not> str_in ''Designer'' (name a)
                                                  \<and> \<not> str_in ''Tester'' (name a)
                                                  \<and> \<not> str_in ''Product'' (name a)) agents)
                      in if length impl_agents \<ge> 2 then g1 @ [impl_agents] else g1)
                else g1)
      in g2)"

subsection \<open>The plan\<close>

text \<open>
  The part of \<open>generate_plan\<close> after the agents are chosen: the details of every agent,
  the sequence, and what is derived from the sequence.
\<close>

definition plan_for_agents :: "agent list \<Rightarrow> task_arg \<Rightarrow> py_error + plan" where
  "plan_for_agents agents task =
     (let agent_details =
            map (\<lambda>a. \<lparr>d_name = name a, d_category = category a, d_role = category a,
                       d_responsibilities = get_agent_responsibilities a task\<rparr>) agents
      in case generate_sequence agents task of
           Inl e \<Rightarrow> Inl e
         | Inr sequence \<Rightarrow>
             Inr \<lparr>p_task = task, p_agents = agent_details, p_sequence = sequence,
                  handoff_points = generate_handoffs agents sequence,
                  dependencies = map_dependencies sequence,
                  parallel_groups = identify_parallel_work agents task\<rparr>)"

text \<open>
  The agents \<open>generate_plan\<close> plans for: the required agents of a multi-agent analysis,
  else the one agent \<open>select_agent\<close> returns.
\<close>

definition plan_agents :: "config \<Rightarrow> task_arg \<Rightarrow> py_error + agent list" where
  "plan_agents cfg task =
     (case analyze_task cfg task of
        Inl e \<Rightarrow> Inl e
      | Inr an \<Rightarrow>
          (if is_multi_agent an then Inr (required_agents an)
           else (case select_agent cfg task of
                   Inl e \<Rightarrow> Inl e
                 | Inr a \<Rightarrow> Inr [a])))"

text \<open>\<open>generate_plan\<close>\<close>

definition generate_plan :: "config \<Rightarrow> task_arg \<Rightarrow> py_error + plan" where
  "generate_plan cfg task =
     (case plan_agents cfg task of
        Inl e \<Rightarrow> Inl e
      | Inr agents \<Rightarrow> plan_for_agents agents task)"

subsection \<open>The numbering invariant of the sequence builder\<close>

text \<open>
  Between any two phases of \<open>_generate_sequence\<close> the steps built so far are numbered
  \<open>1, 2, ...\<close> and the counter is the next number.
\<close>

definition numbered :: "seq_state \<Rightarrow> bool" where
  "numbered st = (1 \<le> snd st \<and> map step_number (fst st) = [1 .. snd st - 1])"

section \<open>The handoffs, as the specification words them\<close>

text \<open>
  One handoff for every adjacent pair of steps whose agents differ, carrying the
  deliverable of the earlier step.
\<close>

definition spec_handoffs :: "step list \<Rightarrow> handoff list" where
  "spec_handoffs sequence =
     map (\<lambda>(earlier, later).
            \<lparr>from_agent = step_agent earlier, to_agent = step_agent later,
             h_deliverable = deliverable earlier,
             success_criteria = get_success_criteria earlier later\<rparr>)
         (filter (\<lambda>(earlier, later). step_agent earlier \<noteq> step_agent later)
                 (zip sequence (tl sequence)))"

section \<open>Example catalogs and tasks\<close>

definition frontend_developer :: agent where
  "frontend_developer =
     \<lparr>name = ''Frontend Developer'', category = ''engineering'',
      agent_keywords = [''frontend'', ''react''], is_default = False\<rparr>"

definition backend_architect :: agent where
  "backend_architect =
     \<lparr>name = ''Backend Architect'', category = ''engineering'',
      agent_keywords = [''backend'', ''api''], is_default = False\<rparr>"

definition senior_developer :: agent where
  "senior_developer =
     \<lparr>name = ''Senior Developer'', category = ''engineering'',
      agent_keywords = [''laravel'', ''php''], is_default = True\<rparr>"

definition devops_engineer :: agent where
  "devops_engineer =
     \<lparr>name = ''DevOps Engineer'', category = ''engineering'',
      agent_keywords = [''devops'', ''deploy'', ''ci/cd''], is_default = False\<rparr>"

definition mobile_app_builder :: agent where
  "mobile_app_builder =
     \<lparr>name = ''Mobile App Builder'', category = ''engineering'',
      agent_keywords = [''mobile'', ''ios'', ''android''], is_default = False\<rparr>"

definition ai_engineer :: agent where
  "ai_engineer =
     \<lparr>name = ''AI Engineer'', category = ''engineering'',
      agent_keywords = [''ai'', ''machine learning'', ''ml''], is_default = False\<rparr>"

definition ui_designer :: agent where
  "ui_designer =
     \<lparr>name = ''UI Designer'', category = ''design'',
      agent_keywords = [''design'', ''ui''], is_default = False\<rparr>"

definition reality_checker :: agent where
  "reality_checker =
     \<lparr>name = ''Reality Checker'', category = ''testing'',
      agent_keywords = [''test'', ''qa''], is_default = False\<rparr>"

definition small_catalog :: config where
  "small_catalog =
     [(''engineering'', [frontend_developer, backend_architect, senior_developer]),
      (''design'', [ui_designer])]"

definition crowded_catalog :: config where
  "crowded_catalog =
     [(''engineering'',
        [frontend_developer, backend_architect, devops_engineer, mobile_app_builder,
         ai_engineer, senior_developer]),
      (''design'', [ui_designer]),
      (''testing'', [reality_checker])]"

definition crowded_task :: string where
  "crowded_task =
     ''Build frontend and backend, design ui, test qa, deploy devops ci/cd, mobile ios android, ai ml machine learning''"

text \<open>Two agents with the role words in other names than the detectors use.\<close>

definition frontend_engineer :: agent where
  "frontend_engineer =
     \<lparr>name = ''Frontend Engineer'', category = ''engineering'',
      agent_keywords = [''frontend''], is_default = False\<rparr>"

definition backend_developer :: agent where
  "backend_developer =
     \<lparr>name = ''Backend Developer'', category = ''engineering'',
      agent_keywords = [''backend''], is_default = True\<rparr>"

definition renamed_catalog :: config where
  "renamed_catalog = [(''engineering'', [frontend_engineer, backend_developer])]"

section \<open>Properties of the router\<close>

subsection \<open>Scores\<close>

lemma keyword_step_spec: "keyword_step t k acc = acc + spec_keyword_points t k"
  by (simp add: keyword_step_def spec_keyword_points_def Let_def field_simps)

lemma fold_keyword_step:
  "fold (keyword_step t) ks acc = acc + (\<Sum>k\<leftarrow>ks. spec_keyword_points t k)"
  by (induction ks arbitrary: acc) (simp_all add: keyword_step_spec)

lemma spec_keyword_points_nonneg: "0 \<le> spec_keyword_points t k"
proof -
  have "0 \<le> real (length (split_ws (lower k)))" by simp
  then have "0 \<le> 2 + (5 / 10) * (real (length (split_ws (lower k))) - 1)"
    by (simp add: field_simps)
  then show ?thesis by (simp add: spec_keyword_points_def)
qed

lemma calculate_agent_score_nonneg: "0 \<le> calculate_agent_score t a"
proof -
  have "0 \<le> (\<Sum>k\<leftarrow>agent_keywords a. spec_keyword_points t k)"
    by (rule sum_list_nonneg) (auto simp: spec_keyword_points_nonneg)
  then show ?thesis
    by (simp add: calculate_agent_score_def fold_keyword_step Let_def)
qed

lemma score_agents_pos: "sa \<in> set (score_agents t ps as) \<Longrightarrow> 0 < score sa"
  by (induction as) (auto simp: Let_def split: if_splits)

lemma score_agents_mem:
  "a \<in> set as \<Longrightarrow> 0 < agent_score t ps a \<Longrightarrow>
   \<lparr>sc_agent = a, score = agent_score t ps a\<rparr> \<in> set (score_agents t ps as)"
  by (induction as) (auto simp: Let_def)

lemma ranked_pos: "sa \<in> set (ranked_scores cfg t) \<Longrightarrow> 0 < score sa"
  by (auto simp: ranked_scores_def dest: score_agents_pos)

lemma ranked_hd_pos: "ranked_scores cfg t \<noteq> [] \<Longrightarrow> 0 < score (hd (ranked_scores cfg t))"
  using ranked_pos [of "hd (ranked_scores cfg t)" cfg t] by simp

lemma sorted_hd_le: "sorted (map f xs) \<Longrightarrow> x \<in> set xs \<Longrightarrow> f (hd xs) \<le> f x"
  by (cases xs) auto

lemma ranked_hd_max:
  assumes "sa \<in> set (ranked_scores cfg t)"
  shows "score sa \<le> score (hd (ranked_scores cfg t))"
proof -
  have "sorted (map (\<lambda>x. - score x) (ranked_scores cfg t))"
    by (simp add: ranked_scores_def)
  from sorted_hd_le [OF this assms] show ?thesis by simp
qed

lemma analyze_task_fallback:
  assumes "get_default_agent cfg = Inr d"
    and "ranked_scores cfg (lower (normalize_task task)) = []
         \<or> score (hd (ranked_scores cfg (lower (normalize_task task)))) < 2"
  shows "analyze_task cfg task =
           Inr \<lparr>is_multi_agent = False, required_agents = [d],
                confidence_score =
                  (if ranked_scores cfg (lower (normalize_task task)) = [] then 0
                   else min (1 / 10 + score (hd (ranked_scores cfg (lower (normalize_task task)))) * (5 / 100))
                            (3 / 10))\<rparr>"
  using assms by (simp add: analyze_task_def Let_def)

lemma analyze_task_total:
  assumes "get_default_agent cfg = Inr d"
  shows "\<exists>r. analyze_task cfg task = Inr r"
  using assms by (simp add: analyze_task_def Let_def)

lemma analyze_task_confidence:
  assumes "analyze_task cfg task = Inr r"
  shows "0 \<le> confidence_score r \<and> confidence_score r \<le> 1"
proof -
  let ?rs = "ranked_scores cfg (lower (normalize_task task))"
  show ?thesis
  proof (cases "?rs = []")
    case True
    with assms show ?thesis
      by (auto simp: analyze_task_def Let_def split: sum.splits)
  next
    case False
    then have pos: "0 < score (hd ?rs)" by (rule ranked_hd_pos)
    with False assms show ?thesis
      by (auto simp: analyze_task_def Let_def min_def split: sum.splits if_splits)
  qed
qed

lemma analyze_task_nonempty:
  assumes "analyze_task cfg task = Inr r"
  shows "required_agents r \<noteq> []"
  using assms
  by (auto simp: analyze_task_def Let_def split: sum.splits if_splits)

lemma dropWhile_all: "list_all P s \<Longrightarrow> dropWhile P s = []"
  by (induction s) auto

lemma strip_all_space: "list_all is_space s \<Longrightarrow> strip s = []"
  by (simp add: strip_def dropWhile_all)

lemma select_agent_blank:
  assumes "strip (normalize_task task) = []"
  shows "select_agent cfg task = get_default_agent cfg"
  using assms by (simp add: select_agent_def Let_def)

lemma select_agent_total:
  assumes "get_default_agent cfg = Inr d"
  shows "\<exists>a. select_agent cfg task = Inr a"
proof -
  obtain r where "analyze_task cfg (Text (strip (normalize_task task))) = Inr r"
    using analyze_task_total [OF assms] by blast
  with assms show ?thesis
    by (auto simp: select_agent_def Let_def split: list.splits)
qed

lemma select_agent_fallback:
  assumes "get_default_agent cfg = Inr d"
    and "ranked_scores cfg (lower (strip (normalize_task task))) = []
         \<or> score (hd (ranked_scores cfg (lower (strip (normalize_task task))))) < 2"
  shows "select_agent cfg task = Inr d"
proof -
  have "normalize_task (Text (strip (normalize_task task))) = strip (normalize_task task)"
    by (simp add: normalize_task_def)
  with analyze_task_fallback [OF assms(1), of "Text (strip (normalize_task task))"] assms(2)
  have "\<exists>c. analyze_task cfg (Text (strip (normalize_task task))) =
          Inr \<lparr>is_multi_agent = False, required_agents = [d], confidence_score = c\<rparr>"
    by auto
  with assms(1) show ?thesis
    by (auto simp: select_agent_def Let_def)
qed


subsection \<open>The frontend and backend detector\<close>

lemma append_new_mono: "set r \<subseteq> set (append_new n r)"
  by (auto simp: append_new_def)

lemma build_test_pattern_mono: "set r \<subseteq> set (build_test_pattern t r)"
  using append_new_mono by (fastforce simp: build_test_pattern_def Let_def)

lemma deploy_pattern_mono: "set r \<subseteq> set (deploy_pattern t r)"
  by (auto simp: deploy_pattern_def)

lemma design_pattern_mono: "set r \<subseteq> set (design_pattern t r)"
  using append_new_mono by (fastforce simp: design_pattern_def)

lemma dashboard_pattern_mono: "set r \<subseteq> set (dashboard_pattern t r)"
  by (auto simp: dashboard_pattern_def append_new_def)

lemma frontend_backend_pattern_both:
  assumes "str_in ''frontend'' t" and "str_in ''backend'' t"
  shows "{''Frontend Developer'', ''Backend Architect''} \<subseteq> set (frontend_backend_pattern t r)"
  using assms by (simp add: frontend_backend_pattern_def)

lemma detect_frontend_backend:
  assumes "str_in ''frontend'' t" and "str_in ''backend'' t"
  shows "{''Frontend Developer'', ''Backend Architect''} \<subseteq> set (detect_multi_agent_patterns t)"
proof -
  let ?r3 = "frontend_backend_pattern t (design_impl_pattern t (full_stack_pattern t []))"
  have "{''Frontend Developer'', ''Backend Architect''} \<subseteq> set ?r3"
    by (rule frontend_backend_pattern_both [OF assms])
  also have "\<dots> \<subseteq> set (build_test_pattern t ?r3)" by (rule build_test_pattern_mono)
  also have "\<dots> \<subseteq> set (deploy_pattern t (build_test_pattern t ?r3))"
    by (rule deploy_pattern_mono)
  also have "\<dots> \<subseteq> set (design_pattern t (deploy_pattern t (build_test_pattern t ?r3)))"
    by (rule design_pattern_mono)
  also have "\<dots> \<subseteq> set (dashboard_pattern t
                (design_pattern t (deploy_pattern t (build_test_pattern t ?r3))))"
    by (rule dashboard_pattern_mono)
  finally show ?thesis by (simp add: detect_multi_agent_patterns_def)
qed

subsection \<open>The list of similar agents\<close>

lemma fold_add_pattern_agent_mono:
  "set sim \<subseteq> set (fold (add_pattern_agent ps) xs sim)"
proof (induction xs arbitrary: sim)
  case Nil
  show ?case by simp
next
  case (Cons x xs)
  have "set sim \<subseteq> set (add_pattern_agent ps x sim)"
    by (auto simp: add_pattern_agent_def)
  also have "\<dots> \<subseteq> set (fold (add_pattern_agent ps) xs (add_pattern_agent ps x sim))"
    by (rule Cons.IH)
  finally show ?case by simp
qed

lemma fold_add_pattern_agent_mem:
  "sa \<in> set xs \<Longrightarrow> name (sc_agent sa) \<in> set ps \<Longrightarrow> 2 \<le> score sa \<Longrightarrow>
   sc_agent sa \<in> set (fold (add_pattern_agent ps) xs sim)"
proof (induction xs arbitrary: sim)
  case Nil
  then show ?case by simp
next
  case (Cons x xs)
  show ?case
  proof (cases "sa = x")
    case True
    with Cons.prems have "sc_agent sa \<in> set (add_pattern_agent ps x sim)"
      by (auto simp: add_pattern_agent_def)
    with fold_add_pattern_agent_mono [of "add_pattern_agent ps x sim" ps xs]
    show ?thesis by auto
  next
    case False
    with Cons.prems have "sa \<in> set xs" by simp
    from Cons.IH [OF this Cons.prems(2,3)] show ?thesis by simp
  qed
qed

lemma similar_agents_mem:
  "sa \<in> set rs \<Longrightarrow> name (sc_agent sa) \<in> set ps \<Longrightarrow> 2 \<le> score sa \<Longrightarrow>
   sc_agent sa \<in> set (similar_agents ps rs)"
  by (simp add: similar_agents_def Let_def fold_add_pattern_agent_mem)

lemma length_filter_mono:
  "(\<And>x. x \<in> set xs \<Longrightarrow> P x \<Longrightarrow> Q x) \<Longrightarrow> length (filter P xs) \<le> length (filter Q xs)"
  by (induction xs) auto

lemma fold_add_pattern_agent_length:
  "length (fold (add_pattern_agent ps) xs sim)
     \<le> length sim + length (filter (\<lambda>sa. sc_agent sa \<notin> set sim) xs)"
proof (induction xs arbitrary: sim)
  case Nil
  show ?case by simp
next
  case (Cons x xs)
  let ?sim' = "add_pattern_agent ps x sim"
  have IH: "length (fold (add_pattern_agent ps) xs ?sim')
              \<le> length ?sim' + length (filter (\<lambda>sa. sc_agent sa \<notin> set ?sim') xs)"
    by (rule Cons.IH)
  have "?sim' = sim \<or> (?sim' = sim @ [sc_agent x] \<and> sc_agent x \<notin> set sim)"
    by (simp add: add_pattern_agent_def)
  then consider (same) "?sim' = sim"
    | (added) "?sim' = sim @ [sc_agent x]" "sc_agent x \<notin> set sim"
    by blast
  then show ?case
  proof cases
    case same
    with IH have "length (fold (add_pattern_agent ps) xs ?sim')
                    \<le> length sim + length (filter (\<lambda>sa. sc_agent sa \<notin> set sim) xs)"
      by simp
    also have "\<dots> \<le> length sim + length (filter (\<lambda>sa. sc_agent sa \<notin> set sim) (x # xs))"
      by simp
    finally show ?thesis by simp
  next
    case added
    have mono: "length (filter (\<lambda>sa. sc_agent sa \<notin> set ?sim') xs)
                  \<le> length (filter (\<lambda>sa. sc_agent sa \<notin> set sim) xs)"
      by (rule length_filter_mono) (simp add: added(1))
    have len: "length ?sim' = Suc (length sim)" by (simp add: added(1))
    have cnt: "length (filter (\<lambda>sa. sc_agent sa \<notin> set sim) (x # xs))
                 = Suc (length (filter (\<lambda>sa. sc_agent sa \<notin> set sim) xs))"
      using added(2) by simp
    from IH mono len cnt show ?thesis by simp
  qed
qed

lemma similar_agents_length: "length (similar_agents ps rs) \<le> length rs"
proof -
  let ?P = "\<lambda>a. score a \<ge> score (hd rs) * (6 / 10)"
  let ?sim = "map sc_agent (filter ?P rs)"
  have "length (similar_agents ps rs)
          \<le> length ?sim + length (filter (\<lambda>sa. sc_agent sa \<notin> set ?sim) rs)"
    unfolding similar_agents_def Let_def by (rule fold_add_pattern_agent_length)
  also have "length (filter (\<lambda>sa. sc_agent sa \<notin> set ?sim) rs)
               \<le> length (filter (\<lambda>a. \<not> ?P a) rs)"
    by (rule length_filter_mono) auto
  also have "length ?sim + length (filter (\<lambda>a. \<not> ?P a) rs) = length rs"
    by (simp add: sum_length_filter_compl)
  finally show ?thesis by simp
qed

lemma two_members_length: "x \<in> set xs \<Longrightarrow> y \<in> set xs \<Longrightarrow> x \<noteq> y \<Longrightarrow> 1 < length xs"
  by (cases xs rule: list.exhaust; cases "tl xs") auto

lemma two_members_remdups: "x \<in> set xs \<Longrightarrow> y \<in> set xs \<Longrightarrow> x \<noteq> y \<Longrightarrow> 1 < length (remdups xs)"
  by (rule two_members_length [of x _ y]) auto


subsection \<open>A task that names frontend and backend\<close>

lemma analyze_task_frontend_backend:
  assumes fe: "str_in ''frontend'' (lower t)" and be: "str_in ''backend'' (lower t)"
    and fd: "fd \<in> set (get_all_agents cfg)" "name fd = ''Frontend Developer''"
    and ba: "ba \<in> set (get_all_agents cfg)" "name ba = ''Backend Architect''"
  shows "analyze_task cfg (Text t) =
           Inr \<lparr>is_multi_agent = True,
                required_agents =
                  take 5 (similar_agents (detect_multi_agent_patterns (lower t))
                            (ranked_scores cfg (lower t))),
                confidence_score =
                  min (3 / 10 + score (hd (ranked_scores cfg (lower t))) * (1 / 10)) 1\<rparr>
         \<and> fd \<in> set (similar_agents (detect_multi_agent_patterns (lower t))
                        (ranked_scores cfg (lower t)))
         \<and> ba \<in> set (similar_agents (detect_multi_agent_patterns (lower t))
                        (ranked_scores cfg (lower t)))"
proof -
  let ?ps = "detect_multi_agent_patterns (lower t)"
  let ?rs = "ranked_scores cfg (lower t)"
  let ?sim = "similar_agents ?ps ?rs"
  let ?sf = "\<lparr>sc_agent = fd, score = agent_score (lower t) ?ps fd\<rparr>"
  let ?sb = "\<lparr>sc_agent = ba, score = agent_score (lower t) ?ps ba\<rparr>"
  have names: "''Frontend Developer'' \<in> set ?ps" "''Backend Architect'' \<in> set ?ps"
    using detect_frontend_backend [OF fe be] by auto
  have sc_fd: "3 \<le> agent_score (lower t) ?ps fd"
    using calculate_agent_score_nonneg [of "lower t" fd] names(1) fd(2)
    by (simp add: agent_score_def Let_def)
  have sc_ba: "3 \<le> agent_score (lower t) ?ps ba"
    using calculate_agent_score_nonneg [of "lower t" ba] names(2) ba(2)
    by (simp add: agent_score_def Let_def)
  have mem_fd: "?sf \<in> set ?rs"
    using score_agents_mem [OF fd(1), of "lower t" ?ps] sc_fd
    by (simp add: ranked_scores_def)
  have mem_ba: "?sb \<in> set ?rs"
    using score_agents_mem [OF ba(1), of "lower t" ?ps] sc_ba
    by (simp add: ranked_scores_def)
  have ne: "fd \<noteq> ba" using fd(2) ba(2) by auto
  then have "?sf \<noteq> ?sb" by simp
  with mem_fd mem_ba have len: "1 < length ?rs" by (rule two_members_length)
  have top: "3 \<le> score (hd ?rs)"
    using ranked_hd_max [OF mem_fd] sc_fd by simp
  have sim_fd: "fd \<in> set ?sim"
    using similar_agents_mem [OF mem_fd, of ?ps] names(1) fd(2) sc_fd by simp
  have sim_ba: "ba \<in> set ?sim"
    using similar_agents_mem [OF mem_ba, of ?ps] names(2) ba(2) sc_ba by simp
  from sim_fd sim_ba ne have len_sim: "1 < length ?sim" by (rule two_members_length)
  have len_ps: "1 < length (remdups ?ps)"
    using names by (rule two_members_remdups) simp
  have "?rs \<noteq> []" using len by auto
  with len top len_sim len_ps sim_fd sim_ba show ?thesis
    by (simp add: analyze_task_def Let_def normalize_task_def)
qed

section \<open>Claims about the router\<close>

text \<open>
  C1.  The score the matcher gives an agent on a task (the keyword loop, the name
  bonus and the pattern boost of the source) equals the score as the specification
  words it: the sum over the keywords of \<open>2.0 + 0.5 * (wordCount - 1)\<close> for a
  whole-word match, else \<open>1.0\<close> for a substring match, else \<open>0.0\<close>; plus \<open>5.0\<close> when
  the lower-cased name occurs in the lower-cased task; plus \<open>3.0\<close> when the pattern
  detectors name the agent.
\<close>

theorem matcher_score_is_spec_score:
  "agent_score (lower t) (detect_multi_agent_patterns (lower t)) a = spec_agent_score (lower t) a"
  by (simp add: agent_score_def calculate_agent_score_def spec_agent_score_def
        fold_keyword_step Let_def)

theorem matcher_score_is_spec_score_witness:
  "agent_score (lower ''React frontend and backend'')
     (detect_multi_agent_patterns (lower ''React frontend and backend'')) frontend_developer = 7
   \<and> spec_agent_score (lower ''React frontend and backend'') frontend_developer = 7"
proof -
  have v: "agent_score (lower ''React frontend and backend'')
             (detect_multi_agent_patterns (lower ''React frontend and backend''))
             frontend_developer = 7"
    by code_simp
  with matcher_score_is_spec_score [of "''React frontend and backend''" frontend_developer]
  show ?thesis by simp
qed

text \<open>
  C2.  When no agent scores above zero, or the best score is below 2.0, the analysis
  returns the default agent of the catalog as the only required agent, is not
  multi-agent, and has confidence 0.0 without candidates and
  \<open>min(0.1 + topScore * 0.05, 0.3)\<close> otherwise.
\<close>

theorem low_score_falls_back_to_default:
  assumes "get_default_agent cfg = Inr d"
    and "ranked_scores cfg (lower (normalize_task task)) = []
         \<or> score (hd (ranked_scores cfg (lower (normalize_task task)))) < 2"
  shows "analyze_task cfg task =
           Inr \<lparr>is_multi_agent = False, required_agents = [d],
                confidence_score =
                  (if ranked_scores cfg (lower (normalize_task task)) = [] then 0
                   else min (1 / 10
                             + score (hd (ranked_scores cfg (lower (normalize_task task))))
                               * (5 / 100))
                            (3 / 10))\<rparr>"
  using assms by (rule analyze_task_fallback)

theorem low_score_falls_back_to_default_witness:
  "get_default_agent small_catalog = Inr senior_developer
   \<and> map score (ranked_scores small_catalog (lower ''A reactive app'')) = [1]
   \<and> analyze_task small_catalog (Text ''A reactive app'') =
       Inr \<lparr>is_multi_agent = False, required_agents = [senior_developer],
            confidence_score = 15 / 100\<rparr>"
proof -
  have d: "get_default_agent small_catalog = Inr senior_developer" by code_simp
  have n: "normalize_task (Text ''A reactive app'') = ''A reactive app''"
    by (simp add: normalize_task_def)
  have r: "map score (ranked_scores small_catalog (lower ''A reactive app'')) = [1]"
    by code_simp
  then have ne: "ranked_scores small_catalog (lower ''A reactive app'') \<noteq> []" by auto
  from r have top: "score (hd (ranked_scores small_catalog (lower ''A reactive app''))) = 1"
    by (cases "ranked_scores small_catalog (lower ''A reactive app'')") auto
  have low: "ranked_scores small_catalog (lower (normalize_task (Text ''A reactive app''))) = []
             \<or> score (hd (ranked_scores small_catalog
                            (lower (normalize_task (Text ''A reactive app''))))) < 2"
    using top n by simp
  from low_score_falls_back_to_default [OF d low] ne top n d r
  show ?thesis by simp
qed

text \<open>
  C4.  For every task argument (a text, also empty or blank, or a value that is not a
  text), on a catalog that has a default agent, the analysis returns a result whose
  confidence lies in the closed interval from 0 to 1.
\<close>

theorem confidence_in_unit_interval:
  assumes "get_default_agent cfg = Inr d"
  shows "\<exists>r. analyze_task cfg task = Inr r
             \<and> 0 \<le> confidence_score r \<and> confidence_score r \<le> 1"
proof -
  from analyze_task_total [OF assms] obtain r where r: "analyze_task cfg task = Inr r"
    by blast
  from analyze_task_confidence [OF r] r show ?thesis by blast
qed

theorem confidence_in_unit_interval_witness:
  "get_default_agent small_catalog = Inr senior_developer
   \<and> (\<exists>r. analyze_task small_catalog (Text ''   '') = Inr r
           \<and> 0 \<le> confidence_score r \<and> confidence_score r \<le> 1)"
proof -
  have d: "get_default_agent small_catalog = Inr senior_developer" by code_simp
  from confidence_in_unit_interval [OF d, of "Text ''   ''"] d show ?thesis by blast
qed

text \<open>
  C7.  On a catalog that has a default agent: \<open>select_agent\<close> returns the default agent
  for a value that is not a text and for every text made of whitespace only (the empty
  text included); for every task argument neither \<open>select_agent\<close> nor \<open>analyze_task\<close>
  raises; and \<open>select_agent\<close> returns the default agent whenever no agent reaches the
  score 2.0 on the stripped text.
\<close>

theorem select_agent_degrades_to_default:
  assumes "get_default_agent cfg = Inr d"
  shows "select_agent cfg NonText = Inr d
         \<and> (list_all is_space s \<longrightarrow> select_agent cfg (Text s) = Inr d)
         \<and> (\<exists>a. select_agent cfg task = Inr a)
         \<and> (\<exists>r. analyze_task cfg task = Inr r)
         \<and> (ranked_scores cfg (lower (strip (normalize_task task))) = []
              \<or> score (hd (ranked_scores cfg (lower (strip (normalize_task task))))) < 2
            \<longrightarrow> select_agent cfg task = Inr d)"
proof -
  have "strip (normalize_task NonText) = []"
    by (simp add: normalize_task_def strip_def)
  then have a: "select_agent cfg NonText = Inr d"
    using select_agent_blank [of NonText cfg] assms by simp
  have b: "list_all is_space s \<longrightarrow> select_agent cfg (Text s) = Inr d"
  proof
    assume "list_all is_space s"
    then have "strip (normalize_task (Text s)) = []"
      by (simp add: normalize_task_def strip_all_space)
    then show "select_agent cfg (Text s) = Inr d"
      using select_agent_blank [of "Text s" cfg] assms by simp
  qed
  from a b select_agent_total [OF assms, of task] analyze_task_total [OF assms, of task]
    select_agent_fallback [OF assms, of task]
  show ?thesis by blast
qed

theorem select_agent_degrades_to_default_witness:
  "get_default_agent small_catalog = Inr senior_developer
   \<and> list_all is_space [CHR '' '', CHR 0x0A, CHR 0x09]
   \<and> ranked_scores small_catalog (lower (strip (normalize_task (Text ''!@#$%^&*()'')))) = []
   \<and> select_agent small_catalog NonText = Inr senior_developer
   \<and> select_agent small_catalog (Text [CHR '' '', CHR 0x0A, CHR 0x09]) = Inr senior_developer
   \<and> select_agent small_catalog (Text ''!@#$%^&*()'') = Inr senior_developer
   \<and> (\<exists>r. analyze_task small_catalog (Text ''!@#$%^&*()'') = Inr r)"
proof -
  have d: "get_default_agent small_catalog = Inr senior_developer" by code_simp
  have w: "list_all is_space [CHR '' '', CHR 0x0A, CHR 0x09]" by code_simp
  have e: "ranked_scores small_catalog
             (lower (strip (normalize_task (Text ''!@#$%^&*()'')))) = []"
    by code_simp
  from select_agent_degrades_to_default
         [OF d, of "[CHR '' '', CHR 0x0A, CHR 0x09]" "Text ''!@#$%^&*()''"] d w e
  show ?thesis by blast
qed

text \<open>
  C3, as the code has it.  On a catalog that lists an agent named Frontend Developer
  and an agent named Backend Architect, for every task whose lower-cased text contains
  both \<open>frontend\<close> and \<open>backend\<close>, the analysis is multi-agent and both agents are in
  the list of similar agents; the required agents are the first five of that list, so
  both agents are required whenever at most five agents of the catalog score above
  zero on the task.
\<close>

theorem frontend_backend_is_multi_agent:
  assumes "str_in ''frontend'' (lower t)" and "str_in ''backend'' (lower t)"
    and "fd \<in> set (get_all_agents cfg)" and "name fd = ''Frontend Developer''"
    and "ba \<in> set (get_all_agents cfg)" and "name ba = ''Backend Architect''"
  shows "\<exists>r. analyze_task cfg (Text t) = Inr r
             \<and> is_multi_agent r
             \<and> required_agents r =
                 take 5 (similar_agents (detect_multi_agent_patterns (lower t))
                           (ranked_scores cfg (lower t)))
             \<and> fd \<in> set (similar_agents (detect_multi_agent_patterns (lower t))
                            (ranked_scores cfg (lower t)))
             \<and> ba \<in> set (similar_agents (detect_multi_agent_patterns (lower t))
                            (ranked_scores cfg (lower t)))
             \<and> (length (ranked_scores cfg (lower t)) \<le> 5
                  \<longrightarrow> fd \<in> set (required_agents r) \<and> ba \<in> set (required_agents r))"
proof -
  let ?sim = "similar_agents (detect_multi_agent_patterns (lower t)) (ranked_scores cfg (lower t))"
  note main = analyze_task_frontend_backend [OF assms]
  have "length (ranked_scores cfg (lower t)) \<le> 5 \<longrightarrow> take 5 ?sim = ?sim"
    using similar_agents_length [of "detect_multi_agent_patterns (lower t)"
                                    "ranked_scores cfg (lower t)"]
    by simp
  with main show ?thesis by auto
qed

theorem frontend_backend_is_multi_agent_witness:
  "str_in ''frontend'' (lower ''Build the frontend and backend'')
   \<and> str_in ''backend'' (lower ''Build the frontend and backend'')
   \<and> frontend_developer \<in> set (get_all_agents small_catalog)
   \<and> name frontend_developer = ''Frontend Developer''
   \<and> backend_architect \<in> set (get_all_agents small_catalog)
   \<and> name backend_architect = ''Backend Architect''
   \<and> length (ranked_scores small_catalog (lower ''Build the frontend and backend'')) \<le> 5
   \<and> (\<exists>r. analyze_task small_catalog (Text ''Build the frontend and backend'') = Inr r
           \<and> is_multi_agent r
           \<and> frontend_developer \<in> set (required_agents r)
           \<and> backend_architect \<in> set (required_agents r))"
proof -
  have h1: "str_in ''frontend'' (lower ''Build the frontend and backend'')" by code_simp
  have h2: "str_in ''backend'' (lower ''Build the frontend and backend'')" by code_simp
  have h3: "frontend_developer \<in> set (get_all_agents small_catalog)" by code_simp
  have h4: "name frontend_developer = ''Frontend Developer''"
    by (simp add: frontend_developer_def)
  have h5: "backend_architect \<in> set (get_all_agents small_catalog)" by code_simp
  have h6: "name backend_architect = ''Backend Architect''"
    by (simp add: backend_architect_def)
  have h7: "length (ranked_scores small_catalog (lower ''Build the frontend and backend'')) \<le> 5"
    by code_simp
  from frontend_backend_is_multi_agent [OF h1 h2 h3 h4 h5 h6] h1 h2 h3 h4 h5 h6 h7
  show ?thesis by blast
qed

text \<open>
  C3, as the claim states it, fails: on a catalog with eight agents, five of them
  score higher than the two on a task that names frontend and backend, and the
  required agents (the first five) hold neither the Frontend Developer nor the
  Backend Architect.
\<close>

theorem frontend_backend_required_counterexample:
  "str_in ''frontend'' (lower crowded_task)
   \<and> str_in ''backend'' (lower crowded_task)
   \<and> frontend_developer \<in> set (get_all_agents crowded_catalog)
   \<and> backend_architect \<in> set (get_all_agents crowded_catalog)
   \<and> analyze_task crowded_catalog (Text crowded_task) =
       Inr \<lparr>is_multi_agent = True,
            required_agents = [devops_engineer, ui_designer, reality_checker, ai_engineer,
                               mobile_app_builder],
            confidence_score = 1\<rparr>
   \<and> frontend_developer \<notin> set [devops_engineer, ui_designer, reality_checker, ai_engineer,
                                 mobile_app_builder]
   \<and> backend_architect \<notin> set [devops_engineer, ui_designer, reality_checker, ai_engineer,
                                mobile_app_builder]"
  by code_simp

end
